theory Spec2Isabelle
  imports Complex_Main
begin

section \<open>BlueGuard threat aggregation: the Python values the core handles\<close>

text \<open>
  The aggregation core of \<^verbatim>\<open>ai_service.py\<close> and \<^verbatim>\<open>ai_service_simple.py\<close> works on
  JSON-like Python values: the per-category results are dicts whose fields hold strings,
  numbers, nested dicts and lists. A dict is an association list in insertion order (Python
  dicts iterate in insertion order); a lookup takes the first binding of a key, and the
  dicts built by the code bind each key once.

  Numbers are modelled as mathematical reals: the thresholds the code compares against
  (0.5, 1.0, 1.5, 2.0, 2.5, 3.5) are exact in binary floating point, so every comparison
  of a finite float with them agrees with the comparison of the reals. NaN and rounding in
  products are outside the model.
\<close>

datatype pyval =
    PyNone
  | PyBool bool
  | PyNum real
  | PyStr string
  | PyList "pyval list"
  | PyDict "(string \<times> pyval) list"

type_synonym pydict = "(string \<times> pyval) list"

text \<open>The exceptions the core functions can raise.\<close>

datatype py_error = TypeError | AttributeError

text \<open>\<^verbatim>\<open>k in d\<close> and \<^verbatim>\<open>d.get(k, default)\<close> on a dict.\<close>

definition has_key :: "string \<Rightarrow> pydict \<Rightarrow> bool" where
  "has_key k d = (map_of d k \<noteq> None)"

definition dict_get :: "pydict \<Rightarrow> string \<Rightarrow> pyval \<Rightarrow> pyval" where
  "dict_get d k dflt = (case map_of d k of None \<Rightarrow> dflt | Some v \<Rightarrow> v)"

text \<open>
  The numeric reading of a value in an arithmetic operation or an ordering comparison with
  a float: ints and floats are themselves, \<^verbatim>\<open>True\<close> and \<^verbatim>\<open>False\<close> are 1 and 0
  (\<^verbatim>\<open>bool\<close> is a subclass of \<^verbatim>\<open>int\<close>), and every other value makes
  the operation raise \<^verbatim>\<open>TypeError\<close>.
\<close>

fun py_number :: "pyval \<Rightarrow> real option" where
  "py_number (PyNum r) = Some r"
| "py_number (PyBool b) = Some (if b then 1 else 0)"
| "py_number _ = None"

text \<open>Lists and dicts are unhashable: using one as a dict key raises \<^verbatim>\<open>TypeError\<close>.\<close>

fun hashable :: "pyval \<Rightarrow> bool" where
  "hashable (PyList _) = False"
| "hashable (PyDict _) = False"
| "hashable _ = True"

section \<open>Risk categorizer\<close>

text \<open>
  \<^verbatim>\<open>_categorize_surge_risk(self, surge_height)\<close>, the same in both files:
  \<^verbatim>\<open>
  if surge_height < 0.5:   return "low"
  elif surge_height < 1.0: return "medium"
  elif surge_height < 2.0: return "high"
  else:                    return "critical"
  \<close>
\<close>

definition categorize_surge_risk :: "real \<Rightarrow> string" where
  "categorize_surge_risk surge_height =
     (if surge_height < 0.5 then ''low''
      else if surge_height < 1.0 then ''medium''
      else if surge_height < 2.0 then ''high''
      else ''critical'')"

section \<open>Carbon-loss estimator\<close>

text \<open>
  \<^verbatim>\<open>_estimate_carbon_loss(self, threat_level, ecosystem_data)\<close>, the same in both files:
  \<^verbatim>\<open>
  base_carbon = ecosystem_data.get('carbon_storage', 100)
  loss_multipliers = {'minimal': 0.05, 'moderate': 0.15, 'significant': 0.35, 'severe': 0.60}
  loss_rate = loss_multipliers.get(threat_level, 0.25)
  carbon_loss = base_carbon * loss_rate
  return {"potential_loss_tons_co2": float(carbon_loss),
          "economic_value_usd": float(carbon_loss * 50),
          "recovery_time_years": float(carbon_loss / 10)}
  \<close>
  \<^verbatim>\<open>ecosystem_data\<close> is a dict. The lookup of an unhashable \<^verbatim>\<open>threat_level\<close> raises, and so
  does the product of a non-numeric \<^verbatim>\<open>base_carbon\<close> with the float rate.
\<close>

definition loss_multipliers :: "(string \<times> real) list" where
  "loss_multipliers =
     [(''minimal'', 0.05), (''moderate'', 0.15), (''significant'', 0.35), (''severe'', 0.60)]"

definition loss_multipliers_get :: "pyval \<Rightarrow> real \<Rightarrow> py_error + real" where
  "loss_multipliers_get key dflt =
     (if \<not> hashable key then Inl TypeError
      else case key of
             PyStr s \<Rightarrow> Inr (case map_of loss_multipliers s of Some r \<Rightarrow> r | None \<Rightarrow> dflt)
           | _ \<Rightarrow> Inr dflt)"

definition estimate_carbon_loss :: "pyval \<Rightarrow> pydict \<Rightarrow> py_error + pyval" where
  "estimate_carbon_loss threat_level ecosystem_data =
     (let base_carbon = dict_get ecosystem_data ''carbon_storage'' (PyNum 100) in
      case loss_multipliers_get threat_level 0.25 of
        Inl e \<Rightarrow> Inl e
      | Inr loss_rate \<Rightarrow>
          (case py_number base_carbon of
             None \<Rightarrow> Inl TypeError
           | Some b \<Rightarrow>
               (let carbon_loss = b * loss_rate in
                Inr (PyDict
                  [(''potential_loss_tons_co2'', PyNum carbon_loss),
                   (''economic_value_usd'', PyNum (carbon_loss * 50)),
                   (''recovery_time_years'', PyNum (carbon_loss / 10))]))))"

section \<open>Overall-risk aggregator\<close>

text \<open>
  \<^verbatim>\<open>_calculate_overall_risk(self, threats)\<close>, the same in both files. The table:
  \<^verbatim>\<open>
  risk_scores = {'low': 1, 'minimal': 1, 'medium': 2, 'moderate': 2,
                 'high': 3, 'significant': 3, 'critical': 4, 'severe': 4}
  \<close>
\<close>

definition risk_scores :: "(string \<times> int) list" where
  "risk_scores =
     [(''low'', 1), (''minimal'', 1), (''medium'', 2), (''moderate'', 2),
      (''high'', 3), (''significant'', 3), (''critical'', 4), (''severe'', 4)]"

definition risk_scores_get :: "pyval \<Rightarrow> int \<Rightarrow> py_error + int" where
  "risk_scores_get key dflt =
     (if \<not> hashable key then Inl TypeError
      else case key of
             PyStr s \<Rightarrow> Inr (case map_of risk_scores s of Some r \<Rightarrow> r | None \<Rightarrow> dflt)
           | _ \<Rightarrow> Inr dflt)"

text \<open>
  The loop that fills \<^verbatim>\<open>scores\<close>:
  \<^verbatim>\<open>
  for threat_type, threat_data in threats.items():
      if isinstance(threat_data, dict) and 'error' not in threat_data:
          if 'risk_level' in threat_data:
              scores.append(risk_scores.get(threat_data['risk_level'], 2))
          elif 'threat_level' in threat_data:
              scores.append(risk_scores.get(threat_data['threat_level'], 2))
  \<close>
  The second argument is the list \<^verbatim>\<open>scores\<close> built so far; an exception leaves the loop.
\<close>

fun collect_scores :: "pydict \<Rightarrow> int list \<Rightarrow> py_error + int list" where
  "collect_scores [] scores = Inr scores"
| "collect_scores ((threat_type, threat_data) # rest) scores =
     (case threat_data of
        PyDict d \<Rightarrow>
          (if \<not> has_key ''error'' d then
             (case map_of d ''risk_level'' of
                Some lvl \<Rightarrow>
                  (case risk_scores_get lvl 2 of
                     Inl e \<Rightarrow> Inl e
                   | Inr s \<Rightarrow> collect_scores rest (scores @ [s]))
              | None \<Rightarrow>
                  (case map_of d ''threat_level'' of
                     Some lvl \<Rightarrow>
                       (case risk_scores_get lvl 2 of
                          Inl e \<Rightarrow> Inl e
                        | Inr s \<Rightarrow> collect_scores rest (scores @ [s]))
                   | None \<Rightarrow> collect_scores rest scores))
           else collect_scores rest scores)
      | _ \<Rightarrow> collect_scores rest scores)"

text \<open>
  \<^verbatim>\<open>
  if not scores: return "unknown"
  avg_score = np.mean(scores)
  if avg_score < 1.5: return "low"
  elif avg_score < 2.5: return "medium"
  elif avg_score < 3.5: return "high"
  else: return "critical"
  \<close>
\<close>

definition calculate_overall_risk :: "pydict \<Rightarrow> py_error + string" where
  "calculate_overall_risk threats =
     (case collect_scores threats [] of
        Inl e \<Rightarrow> Inl e
      | Inr scores \<Rightarrow>
          Inr (if scores = [] then ''unknown''
               else (let avg_score = real_of_int (sum_list scores) / real (length scores) in
                     if avg_score < 1.5 then ''low''
                     else if avg_score < 2.5 then ''medium''
                     else if avg_score < 3.5 then ''high''
                     else ''critical'')))"

section \<open>Recommendation generator\<close>

text \<open>
  \<^verbatim>\<open>_generate_recommendations(self, threats)\<close> exists in two variants. The one of
  \<^verbatim>\<open>ai_service.py\<close> appends two strings where a storm-surge warning, a coastal or a
  blue-carbon rule fires; the one of \<^verbatim>\<open>ai_service_simple.py\<close> appends one, and ends with
  \<^verbatim>\<open>
  if not recommendations:
      recommendations.append("Continue routine monitoring")
  \<close>
\<close>

datatype variant = Full | Simplified

definition storm_warning :: "variant \<Rightarrow> string list" where
  "storm_warning v =
     (case v of
        Full \<Rightarrow> [''Issue storm surge warning - evacuate low-lying areas'',
                 ''Deploy emergency response teams'']
      | Simplified \<Rightarrow> [''Issue storm surge warning - evacuate low-lying areas''])"

definition storm_monitor :: "string list" where
  "storm_monitor = [''Monitor coastal conditions closely'']"

definition coastal_protection :: "variant \<Rightarrow> string list" where
  "coastal_protection v =
     (case v of
        Full \<Rightarrow> [''Implement emergency coastal protection measures'',
                 ''Restrict beach access in high-risk areas'']
      | Simplified \<Rightarrow> [''Implement emergency coastal protection measures''])"

definition carbon_protection :: "variant \<Rightarrow> string list" where
  "carbon_protection v =
     (case v of
        Full \<Rightarrow> [''Activate blue carbon ecosystem protection protocols'',
                 ''Deploy rapid response conservation team'']
      | Simplified \<Rightarrow> [''Activate blue carbon ecosystem protection protocols''])"

definition routine_monitoring :: string where
  "routine_monitoring = ''Continue routine monitoring''"

text \<open>\<^verbatim>\<open>value > bound\<close> for a float bound: raises unless the value is a number.\<close>

definition py_gt :: "pyval \<Rightarrow> real \<Rightarrow> py_error + bool" where
  "py_gt v bound = (case py_number v of None \<Rightarrow> Inl TypeError | Some r \<Rightarrow> Inr (r > bound))"

text \<open>
  The body of the loop for one item of \<^verbatim>\<open>threats.items()\<close>: the strings it appends.
  \<^verbatim>\<open>
  if isinstance(threat_data, dict) and 'error' not in threat_data:
      if threat_type == 'storm_surge':
          surge_height = threat_data.get('surge_height', 0)
          if surge_height > 1.0:   ... warning ...
          elif surge_height > 0.5: ... "Monitor coastal conditions closely"
      elif threat_type == 'coastal_erosion':
          risk_level = threat_data.get('risk_level', 'low')
          if risk_level in ['high', 'critical']: ...
      elif threat_type == 'blue_carbon':
          threat_level = threat_data.get('threat_level', 'minimal')
          if threat_level in ['significant', 'severe']: ...
  \<close>
\<close>

definition recommend_item :: "variant \<Rightarrow> string \<Rightarrow> pyval \<Rightarrow> py_error + string list" where
  "recommend_item v threat_type threat_data =
     (case threat_data of
        PyDict d \<Rightarrow>
          (if \<not> has_key ''error'' d then
             (if threat_type = ''storm_surge'' then
                (let surge_height = dict_get d ''surge_height'' (PyNum 0) in
                 case py_gt surge_height 1.0 of
                   Inl e \<Rightarrow> Inl e
                 | Inr exceeds \<Rightarrow>
                     (if exceeds then Inr (storm_warning v)
                      else (case py_gt surge_height 0.5 of
                              Inl e \<Rightarrow> Inl e
                            | Inr exceeds' \<Rightarrow> Inr (if exceeds' then storm_monitor else []))))
              else if threat_type = ''coastal_erosion'' then
                (let risk_level = dict_get d ''risk_level'' (PyStr ''low'') in
                 Inr (if risk_level \<in> set [PyStr ''high'', PyStr ''critical'']
                      then coastal_protection v else []))
              else if threat_type = ''blue_carbon'' then
                (let threat_level = dict_get d ''threat_level'' (PyStr ''minimal'') in
                 Inr (if threat_level \<in> set [PyStr ''significant'', PyStr ''severe'']
                      then carbon_protection v else []))
              else Inr [])
           else Inr [])
      | _ \<Rightarrow> Inr [])"

fun recommend_loop :: "variant \<Rightarrow> pydict \<Rightarrow> string list \<Rightarrow> py_error + string list" where
  "recommend_loop v [] recommendations = Inr recommendations"
| "recommend_loop v ((threat_type, threat_data) # rest) recommendations =
     (case recommend_item v threat_type threat_data of
        Inl e \<Rightarrow> Inl e
      | Inr new \<Rightarrow> recommend_loop v rest (recommendations @ new))"

definition generate_recommendations :: "variant \<Rightarrow> pydict \<Rightarrow> py_error + string list" where
  "generate_recommendations v threats =
     (case recommend_loop v threats [] of
        Inl e \<Rightarrow> Inl e
      | Inr recommendations \<Rightarrow>
          (case v of
             Full \<Rightarrow> Inr recommendations
           | Simplified \<Rightarrow>
               Inr (if recommendations = [] then recommendations @ [routine_monitoring]
                    else recommendations)))"

section \<open>Predictors and the threat-analysis orchestrator\<close>

text \<open>
  \<^verbatim>\<open>d[k] = v\<close> on a dict: an existing key keeps its place, a new key goes last.
\<close>

fun dict_set :: "string \<Rightarrow> pyval \<Rightarrow> pydict \<Rightarrow> pydict" where
  "dict_set k v [] = [(k, v)]"
| "dict_set k v ((k', v') # d) = (if k' = k then (k, v) # d else (k', v') # dict_set k v d)"

text \<open>
  The predictors call into fitted models of an external library. A model is a parameter:
  a function from the input section to what the lines from feature preparation to
  prediction compute, or \<open>Inl msg\<close> when one of them raises an exception whose
  \<^verbatim>\<open>str(e)\<close> is \<open>msg\<close>. The dict of loaded models maps a name to a model; a name that is
  not in the dict is \<open>None\<close>. A classifier yields the predicted label, the confidence
  and the probabilities mapping; the weather models yield the list of 24 predictions (whose
  timestamps come from the clock, and in \<^verbatim>\<open>ai_service_simple.py\<close> whose temperatures come
  from a random generator).
\<close>

record predictor =
  models_loaded :: bool
  storm_surge_model :: "(pydict \<Rightarrow> string + real) option"
  coastal_erosion_model :: "(pydict \<Rightarrow> string + pyval \<times> real \<times> pydict) option"
  blue_carbon_threat_model :: "(pydict \<Rightarrow> string + pyval \<times> real \<times> pydict) option"
  weather_prediction_model :: "(pyval \<Rightarrow> string + pyval list) option"
  weather_trend :: "pyval \<Rightarrow> string + pyval list"

text \<open>
  \<^verbatim>\<open>str(e)\<close> of an exception raised by the modelled code itself. The interpreter's wording
  is not modelled; the class name stands for it.
\<close>

definition exc_str :: "py_error \<Rightarrow> string" where
  "exc_str e = (case e of TypeError \<Rightarrow> ''TypeError'' | AttributeError \<Rightarrow> ''AttributeError'')"

text \<open>
  \<^verbatim>\<open>if not self.models_loaded or name not in self.trainer.models\<close> in \<^verbatim>\<open>ai_service.py\<close>,
  \<^verbatim>\<open>if name not in self.models\<close> in \<^verbatim>\<open>ai_service_simple.py\<close>.
\<close>

definition model_unavailable :: "variant \<Rightarrow> predictor \<Rightarrow> 'a option \<Rightarrow> bool" where
  "model_unavailable v p model =
     (case v of
        Full \<Rightarrow> \<not> models_loaded p \<or> model = None
      | Simplified \<Rightarrow> model = None)"

text \<open>
  \<^verbatim>\<open>predict_storm_surge(self, weather_data)\<close>. Everything after the availability test is
  inside \<^verbatim>\<open>try\<close>; every exception gives \<^verbatim>\<open>{"error": str(e), "surge_height": 0}\<close>.
  \<^verbatim>\<open>
  confidence = min(0.95, 0.6 + (weather_data.get('wind_speed', 10) / 50) * 0.3)
  return {"surge_height": float(surge_height),        # float(max(0, surge_height)) in the simple file
          "confidence": float(confidence),
          "risk_level": self._categorize_surge_risk(surge_height)}
  \<close>
\<close>

definition predict_storm_surge :: "variant \<Rightarrow> predictor \<Rightarrow> pyval \<Rightarrow> pyval" where
  "predict_storm_surge v p weather_data =
     (if model_unavailable v p (storm_surge_model p)
      then PyDict [(''error'', PyStr ''Storm surge model not available''),
                   (''surge_height'', PyNum 0)]
      else
        (case (storm_surge_model p, weather_data) of
           (Some model, PyDict d) \<Rightarrow>
             (case model d of
                Inl msg \<Rightarrow> PyDict [(''error'', PyStr msg), (''surge_height'', PyNum 0)]
              | Inr surge_height \<Rightarrow>
                  (case py_number (dict_get d ''wind_speed'' (PyNum 10)) of
                     None \<Rightarrow> PyDict [(''error'', PyStr (exc_str TypeError)),
                                     (''surge_height'', PyNum 0)]
                   | Some wind_speed \<Rightarrow>
                       PyDict
                         [(''surge_height'',
                             PyNum (case v of Full \<Rightarrow> surge_height
                                    | Simplified \<Rightarrow> max 0 surge_height)),
                          (''confidence'', PyNum (min 0.95 (0.6 + (wind_speed / 50) * 0.3))),
                          (''risk_level'', PyStr (categorize_surge_risk surge_height))]))
         | _ \<Rightarrow> PyDict [(''error'', PyStr (exc_str AttributeError)),
                         (''surge_height'', PyNum 0)]))"

text \<open>
  \<^verbatim>\<open>predict_coastal_erosion(self, coastal_data)\<close>: the model's label, confidence and
  probabilities, or \<^verbatim>\<open>{"error": ..., "risk_level": "unknown"}\<close>.
\<close>

definition predict_coastal_erosion :: "variant \<Rightarrow> predictor \<Rightarrow> pyval \<Rightarrow> pyval" where
  "predict_coastal_erosion v p coastal_data =
     (if model_unavailable v p (coastal_erosion_model p)
      then PyDict [(''error'', PyStr ''Erosion model not available''),
                   (''risk_level'', PyStr ''unknown'')]
      else
        (case (coastal_erosion_model p, coastal_data) of
           (Some model, PyDict d) \<Rightarrow>
             (case model d of
                Inl msg \<Rightarrow> PyDict [(''error'', PyStr msg), (''risk_level'', PyStr ''unknown'')]
              | Inr (risk_level, confidence, probabilities) \<Rightarrow>
                  PyDict [(''risk_level'', risk_level),
                          (''confidence'', PyNum confidence),
                          (''probabilities'', PyDict probabilities)])
         | _ \<Rightarrow> PyDict [(''error'', PyStr (exc_str AttributeError)),
                         (''risk_level'', PyStr ''unknown'')]))"

text \<open>
  \<^verbatim>\<open>predict_blue_carbon_threat(self, ecosystem_data)\<close>: after the prediction,
  \<^verbatim>\<open>
  carbon_loss = self._estimate_carbon_loss(threat_level, ecosystem_data)
  return {"threat_level": threat_level, "confidence": confidence,
          "probabilities": ..., "carbon_loss_estimate": carbon_loss}
  \<close>
  and \<^verbatim>\<open>{"error": str(e), "threat_level": "unknown"}\<close> on any exception, the estimator's
  included.
\<close>

definition predict_blue_carbon_threat :: "variant \<Rightarrow> predictor \<Rightarrow> pyval \<Rightarrow> pyval" where
  "predict_blue_carbon_threat v p ecosystem_data =
     (if model_unavailable v p (blue_carbon_threat_model p)
      then PyDict [(''error'', PyStr ''Blue carbon model not available''),
                   (''threat_level'', PyStr ''unknown'')]
      else
        (case (blue_carbon_threat_model p, ecosystem_data) of
           (Some model, PyDict d) \<Rightarrow>
             (case model d of
                Inl msg \<Rightarrow> PyDict [(''error'', PyStr msg), (''threat_level'', PyStr ''unknown'')]
              | Inr (threat_level, confidence, probabilities) \<Rightarrow>
                  (case estimate_carbon_loss threat_level d of
                     Inl e \<Rightarrow> PyDict [(''error'', PyStr (exc_str e)),
                                      (''threat_level'', PyStr ''unknown'')]
                   | Inr carbon_loss \<Rightarrow>
                       PyDict [(''threat_level'', threat_level),
                               (''confidence'', PyNum confidence),
                               (''probabilities'', PyDict probabilities),
                               (''carbon_loss_estimate'', carbon_loss)]))
         | _ \<Rightarrow> PyDict [(''error'', PyStr (exc_str AttributeError)),
                         (''threat_level'', PyStr ''unknown'')]))"

text \<open>
  \<^verbatim>\<open>predict_weather_sequence(self, historical_data)\<close>. In \<^verbatim>\<open>ai_service.py\<close> the LSTM model
  may be unavailable (\<^verbatim>\<open>{"error": "Weather prediction model not available"}\<close>) and the
  confidence is 0.8; in \<^verbatim>\<open>ai_service_simple.py\<close> the trend computation needs no model and
  the confidence is 0.6. Both return \<^verbatim>\<open>{"predictions": [...], "confidence": c}\<close>, or
  \<^verbatim>\<open>{"error": str(e)}\<close> on any exception.
\<close>

definition predict_weather_sequence :: "variant \<Rightarrow> predictor \<Rightarrow> pyval \<Rightarrow> pyval" where
  "predict_weather_sequence v p historical_data =
     (case v of
        Full \<Rightarrow>
          (if model_unavailable Full p (weather_prediction_model p)
           then PyDict [(''error'', PyStr ''Weather prediction model not available'')]
           else
             (case weather_prediction_model p of
                Some model \<Rightarrow>
                  (case model historical_data of
                     Inl msg \<Rightarrow> PyDict [(''error'', PyStr msg)]
                   | Inr predictions \<Rightarrow>
                       PyDict [(''predictions'', PyList predictions),
                               (''confidence'', PyNum 0.8)])
              | None \<Rightarrow> PyDict [(''error'', PyStr ''Weather prediction model not available'')]))
      | Simplified \<Rightarrow>
          (case weather_trend p historical_data of
             Inl msg \<Rightarrow> PyDict [(''error'', PyStr msg)]
           | Inr predictions \<Rightarrow>
               PyDict [(''predictions'', PyList predictions),
                       (''confidence'', PyNum 0.6)]))"

text \<open>
  \<^verbatim>\<open>comprehensive_threat_analysis(self, input_data)\<close>, the same in both files but for the
  initial confidence (0.8 and 0.7):
  \<^verbatim>\<open>
  results = {"timestamp": datetime.now().isoformat(), "overall_risk": "low",
             "confidence": 0.8, "threats": {}}
  try:
      if 'weather' in input_data:
          results['threats']['storm_surge'] = self.predict_storm_surge(input_data['weather'])
      if 'coastal' in input_data:
          results['threats']['coastal_erosion'] = self.predict_coastal_erosion(input_data['coastal'])
      if 'ecosystem' in input_data:
          results['threats']['blue_carbon'] = self.predict_blue_carbon_threat(input_data['ecosystem'])
      if 'historical_weather' in input_data:
          results['threats']['weather_forecast'] = self.predict_weather_sequence(input_data['historical_weather'])
      results['overall_risk'] = self._calculate_overall_risk(results['threats'])
      results['recommendations'] = self._generate_recommendations(results['threats'])
      return results
  except Exception as e:
      results['error'] = str(e)
      return results
  \<close>
  \<open>collect_threats\<close> is the state of \<^verbatim>\<open>results['threats']\<close> after the four tests; the
  clock's reading is the parameter \<open>now\<close>.
\<close>

definition collect_threats :: "variant \<Rightarrow> predictor \<Rightarrow> pydict \<Rightarrow> pydict" where
  "collect_threats v p input_data =
     (let threats = [];
          threats = (if has_key ''weather'' input_data
                     then dict_set ''storm_surge''
                            (predict_storm_surge v p (dict_get input_data ''weather'' PyNone)) threats
                     else threats);
          threats = (if has_key ''coastal'' input_data
                     then dict_set ''coastal_erosion''
                            (predict_coastal_erosion v p (dict_get input_data ''coastal'' PyNone)) threats
                     else threats);
          threats = (if has_key ''ecosystem'' input_data
                     then dict_set ''blue_carbon''
                            (predict_blue_carbon_threat v p (dict_get input_data ''ecosystem'' PyNone))
                            threats
                     else threats);
          threats = (if has_key ''historical_weather'' input_data
                     then dict_set ''weather_forecast''
                            (predict_weather_sequence v p
                               (dict_get input_data ''historical_weather'' PyNone)) threats
                     else threats)
      in threats)"

definition comprehensive_threat_analysis ::
    "variant \<Rightarrow> predictor \<Rightarrow> string \<Rightarrow> pydict \<Rightarrow> pydict" where
  "comprehensive_threat_analysis v p now input_data =
     (let threats = collect_threats v p input_data;
          results = [(''timestamp'', PyStr now),
                     (''overall_risk'', PyStr ''low''),
                     (''confidence'', PyNum (case v of Full \<Rightarrow> 0.8 | Simplified \<Rightarrow> 0.7)),
                     (''threats'', PyDict threats)]
      in case calculate_overall_risk threats of
           Inl e \<Rightarrow> dict_set ''error'' (PyStr (exc_str e)) results
         | Inr overall_risk \<Rightarrow>
             (let results = dict_set ''overall_risk'' (PyStr overall_risk) results
              in case generate_recommendations v threats of
                   Inl e \<Rightarrow> dict_set ''error'' (PyStr (exc_str e)) results
                 | Inr recommendations \<Rightarrow>
                     dict_set ''recommendations'' (PyList (map PyStr recommendations)) results))"

text \<open>Removing a section from the input: the input without the key.\<close>

definition without_key :: "string \<Rightarrow> pydict \<Rightarrow> pydict" where
  "without_key k d = filter (\<lambda>(k', v). k' \<noteq> k) d"

section \<open>The claims' own words, as definitions\<close>

text \<open>
  The specification describes the aggregator by what it collects: for every result that
  is a dict without an \<^verbatim>\<open>error\<close> key, the label is the \<^verbatim>\<open>risk_level\<close> field when
  there is one and the \<^verbatim>\<open>threat_level\<close> field otherwise; a label's rank comes from the
  shared table, 2 when the label is not in it.
\<close>

definition spec_result_label :: "pyval \<Rightarrow> pyval option" where
  "spec_result_label r =
     (case r of
        PyDict d \<Rightarrow>
          (if has_key ''error'' d then None
           else (case map_of d ''risk_level'' of
                   Some l \<Rightarrow> Some l
                 | None \<Rightarrow> map_of d ''threat_level''))
      | _ \<Rightarrow> None)"

definition spec_label_rank :: "pyval \<Rightarrow> int" where
  "spec_label_rank l =
     (if l = PyStr ''low'' \<or> l = PyStr ''minimal'' then 1
      else if l = PyStr ''medium'' \<or> l = PyStr ''moderate'' then 2
      else if l = PyStr ''high'' \<or> l = PyStr ''significant'' then 3
      else if l = PyStr ''critical'' \<or> l = PyStr ''severe'' then 4
      else 2)"

definition spec_collected_labels :: "pydict \<Rightarrow> pyval list" where
  "spec_collected_labels threats = List.map_filter (\<lambda>(c, r). spec_result_label r) threats"

definition spec_collected_ranks :: "pydict \<Rightarrow> int list" where
  "spec_collected_ranks threats = map spec_label_rank (spec_collected_labels threats)"



text \<open>A result that carries an \<^verbatim>\<open>error\<close> key.\<close>

definition carries_error :: "pyval \<Rightarrow> bool" where
  "carries_error r = (case r of PyDict d \<Rightarrow> has_key ''error'' d | _ \<Rightarrow> False)"

text \<open>
  The recommendation rules as the specification lists them, each on its own: for an entry
  without an \<^verbatim>\<open>error\<close> key, the storm-surge warning when the surge height is above 1.0, the
  monitoring advice when it is above 0.5 and at most 1.0, the coastal protection advice
  when the risk level is high or critical, the blue-carbon protocol when the threat level
  is significant or severe. The surge height is read as a number, 0 when the field is
  absent; \<open>spec_surge_numeric\<close> says that this reading exists wherever a rule needs it.
\<close>

definition spec_surge_height :: "pydict \<Rightarrow> real option" where
  "spec_surge_height d = py_number (dict_get d ''surge_height'' (PyNum 0))"

definition spec_surge_numeric :: "string \<times> pyval \<Rightarrow> bool" where
  "spec_surge_numeric item =
     (case snd item of
        PyDict d \<Rightarrow>
          (if fst item = ''storm_surge'' \<and> \<not> has_key ''error'' d
           then spec_surge_height d \<noteq> None else True)
      | _ \<Rightarrow> True)"

definition spec_item_recs :: "variant \<Rightarrow> string \<times> pyval \<Rightarrow> string list" where
  "spec_item_recs v item =
     (case snd item of
        PyDict d \<Rightarrow>
          (if has_key ''error'' d then []
           else
             (if fst item = ''storm_surge'' \<and>
                 (case spec_surge_height d of Some h \<Rightarrow> h > 1.0 | None \<Rightarrow> False)
              then storm_warning v else []) @
             (if fst item = ''storm_surge'' \<and>
                 (case spec_surge_height d of Some h \<Rightarrow> 0.5 < h \<and> h \<le> 1.0 | None \<Rightarrow> False)
              then storm_monitor else []) @
             (if fst item = ''coastal_erosion'' \<and>
                 (dict_get d ''risk_level'' (PyStr ''low'') = PyStr ''high'' \<or>
                  dict_get d ''risk_level'' (PyStr ''low'') = PyStr ''critical'')
              then coastal_protection v else []) @
             (if fst item = ''blue_carbon'' \<and>
                 (dict_get d ''threat_level'' (PyStr ''minimal'') = PyStr ''significant'' \<or>
                  dict_get d ''threat_level'' (PyStr ''minimal'') = PyStr ''severe'')
              then carbon_protection v else []))
      | _ \<Rightarrow> [])"

text \<open>The order of the four labels the aggregator returns; "unknown" is below them.\<close>

definition spec_level_order :: "string \<Rightarrow> nat" where
  "spec_level_order l =
     (if l = ''low'' then 1 else if l = ''medium'' then 2 else if l = ''high'' then 3
      else if l = ''critical'' then 4 else 0)"

text \<open>
  The second strings that only \<^verbatim>\<open>ai_service.py\<close> appends when a rule fires.
\<close>

definition second_strings :: "string list" where
  "second_strings =
     [''Deploy emergency response teams'',
      ''Restrict beach access in high-risk areas'',
      ''Deploy rapid response conservation team'']"

section \<open>Properties\<close>

subsection \<open>Risk categorizer\<close>

text \<open>
  Claim C2. The risk categorizer is a total function of a real input that returns exactly
  one of the four labels, by half-open thresholds: low exactly below 0.5 (so for every
  negative input), medium exactly on [0.5, 1.0), high exactly on [1.0, 2.0), critical
  exactly from 2.0 on; 0.5 maps to medium, 1.0 to high and 2.5 to critical. The function
  is a HOL function, hence total, and its result is a label, never an error.
\<close>

theorem categorize_surge_risk_thresholds:
  "(categorize_surge_risk x = ''low'' \<longleftrightarrow> x < 0.5) \<and>
   (categorize_surge_risk x = ''medium'' \<longleftrightarrow> 0.5 \<le> x \<and> x < 1.0) \<and>
   (categorize_surge_risk x = ''high'' \<longleftrightarrow> 1.0 \<le> x \<and> x < 2.0) \<and>
   (categorize_surge_risk x = ''critical'' \<longleftrightarrow> 2.0 \<le> x) \<and>
   categorize_surge_risk x \<in> {''low'', ''medium'', ''high'', ''critical''} \<and>
   (x < 0 \<longrightarrow> categorize_surge_risk x = ''low'') \<and>
   categorize_surge_risk 0.5 = ''medium'' \<and>
   categorize_surge_risk 1.0 = ''high'' \<and>
   categorize_surge_risk 2.5 = ''critical''"
  by (simp add: categorize_surge_risk_def)

theorem categorize_surge_risk_thresholds_witness:
  "categorize_surge_risk (-3) = ''low'' \<and> categorize_surge_risk 0.999 = ''medium'' \<and>
   categorize_surge_risk 1.2 = ''high'' \<and> categorize_surge_risk 2 = ''critical''"
  using categorize_surge_risk_thresholds [of "-3"] categorize_surge_risk_thresholds [of "0.999"]
    categorize_surge_risk_thresholds [of "1.2"] categorize_surge_risk_thresholds [of 2]
  by simp

subsection \<open>Overall-risk aggregator\<close>

lemma risk_scores_get_rank:
  "risk_scores_get l 2 = (if hashable l then Inr (spec_label_rank l) else Inl TypeError)"
  by (cases l) (simp_all add: risk_scores_get_def risk_scores_def spec_label_rank_def)

lemma spec_collected_labels_Nil: "spec_collected_labels [] = []"
  by (simp add: spec_collected_labels_def)

lemma spec_collected_labels_Cons:
  "spec_collected_labels ((c, r) # rest) =
     (case spec_result_label r of
        None \<Rightarrow> spec_collected_labels rest
      | Some l \<Rightarrow> l # spec_collected_labels rest)"
  by (simp add: spec_collected_labels_def split: option.splits)

text \<open>
  The loop appends to \<^verbatim>\<open>scores\<close> the ranks of the collected labels, in order, and raises
  exactly when one of the collected labels is unhashable.
\<close>

lemma collect_scores_spec:
  "collect_scores threats scores =
     (if list_all hashable (spec_collected_labels threats)
      then Inr (scores @ spec_collected_ranks threats) else Inl TypeError)"
proof (induction threats arbitrary: scores)
  case Nil
  show ?case by (simp add: spec_collected_labels_Nil spec_collected_ranks_def)
next
  case (Cons p rest)
  obtain c r where p: "p = (c, r)" by (cases p)
  show ?case
    unfolding p
    by (cases r)
      (auto simp: Cons.IH spec_collected_labels_Cons spec_collected_ranks_def
        spec_result_label_def risk_scores_get_rank split: option.splits)
qed

text \<open>
  Claim C1. For every mapping of category names to results, the aggregator collects one
  rank per result without an \<^verbatim>\<open>error\<close> key that has a label (the \<^verbatim>\<open>risk_level\<close> field,
  else the \<^verbatim>\<open>threat_level\<close> field; ranks 1 to 4 by the shared table, 2 for any other
  label), returns "unknown" when it collected none, and otherwise classifies the arithmetic
  mean of the ranks: low below 1.5, medium below 2.5, high below 3.5, critical from there.
  Two results at high and one at low give medium. A label of a prediction result is a
  string, which is hashable; the lookup of an unhashable label (a list or a dict) in the
  rank table raises \<^verbatim>\<open>TypeError\<close>, which the statement records as well.
\<close>

theorem calculate_overall_risk_mean:
  "calculate_overall_risk threats =
     (if list_all hashable (spec_collected_labels threats)
      then Inr (if spec_collected_ranks threats = [] then ''unknown''
                else if real_of_int (sum_list (spec_collected_ranks threats))
                          / real (length (spec_collected_ranks threats)) < 1.5 then ''low''
                else if real_of_int (sum_list (spec_collected_ranks threats))
                          / real (length (spec_collected_ranks threats)) < 2.5 then ''medium''
                else if real_of_int (sum_list (spec_collected_ranks threats))
                          / real (length (spec_collected_ranks threats)) < 3.5 then ''high''
                else ''critical'')
      else Inl TypeError)
   \<and> calculate_overall_risk
         [(''storm_surge'', PyDict [(''surge_height'', PyNum 1.2), (''risk_level'', PyStr ''high'')]),
          (''coastal_erosion'', PyDict [(''risk_level'', PyStr ''high'')]),
          (''blue_carbon'', PyDict [(''threat_level'', PyStr ''low'')])] = Inr ''medium''"
  by (simp add: calculate_overall_risk_def collect_scores_spec Let_def spec_collected_labels_Cons
      spec_collected_labels_Nil spec_collected_ranks_def spec_result_label_def has_key_def
      spec_label_rank_def)

theorem calculate_overall_risk_mean_witness:
  "calculate_overall_risk
     [(''storm_surge'', PyDict [(''error'', PyStr ''Storm surge model not available''),
                                (''surge_height'', PyNum 0)]),
      (''coastal_erosion'', PyDict [(''risk_level'', PyStr ''critical'')]),
      (''blue_carbon'', PyDict [(''threat_level'', PyStr ''significant'')]),
      (''weather_forecast'', PyDict [(''predictions'', PyList []), (''confidence'', PyNum 0.8)])]
   = Inr ''critical''"
  using calculate_overall_risk_mean
    [of "[(''storm_surge'', PyDict [(''error'', PyStr ''Storm surge model not available''),
                                (''surge_height'', PyNum 0)]),
      (''coastal_erosion'', PyDict [(''risk_level'', PyStr ''critical'')]),
      (''blue_carbon'', PyDict [(''threat_level'', PyStr ''significant'')]),
      (''weather_forecast'', PyDict [(''predictions'', PyList []), (''confidence'', PyNum 0.8)])]"]
  by (simp add: spec_collected_labels_Cons spec_collected_labels_Nil spec_collected_ranks_def
      spec_result_label_def has_key_def spec_label_rank_def)

text \<open>
  Claim C3, as stated: three results without error whose labels are high, high and low
  make the aggregator return "high". The code returns "medium": the mean of 3, 3 and 1 is
  7/3, which is below 2.5.
\<close>

theorem overall_risk_high_high_low_not_high:
  "calculate_overall_risk
     [(''storm_surge'', PyDict [(''risk_level'', PyStr ''high'')]),
      (''coastal_erosion'', PyDict [(''risk_level'', PyStr ''high'')]),
      (''blue_carbon'', PyDict [(''risk_level'', PyStr ''low'')])] \<noteq> Inr ''high''"
  by (simp add: calculate_overall_risk_def has_key_def risk_scores_get_def risk_scores_def)

text \<open>
  Claim C3, amended: three results without error whose labels are high, high and low, under
  any category names, make the aggregator return "medium".
\<close>

theorem overall_risk_high_high_low:
  assumes "spec_result_label r1 = Some (PyStr ''high'')"
    and "spec_result_label r2 = Some (PyStr ''high'')"
    and "spec_result_label r3 = Some (PyStr ''low'')"
  shows "calculate_overall_risk [(c1, r1), (c2, r2), (c3, r3)] = Inr ''medium''"
  using assms
  by (simp add: calculate_overall_risk_def collect_scores_spec spec_collected_labels_Cons
      spec_collected_labels_Nil spec_collected_ranks_def spec_label_rank_def)

theorem overall_risk_high_high_low_witness:
  "calculate_overall_risk
     [(''storm_surge'', PyDict [(''risk_level'', PyStr ''high'')]),
      (''coastal_erosion'', PyDict [(''risk_level'', PyStr ''high'')]),
      (''blue_carbon'', PyDict [(''threat_level'', PyStr ''low'')])] = Inr ''medium''"
  by (rule overall_risk_high_high_low) (simp_all add: spec_result_label_def has_key_def)

subsection \<open>Carbon-loss estimator\<close>









subsection \<open>Recommendation generator\<close>

text \<open>
  One pass of the loop body appends what the rules of the specification give for the item,
  and raises exactly when the item is a storm-surge result without error whose surge height
  is not a number.
\<close>

lemma recommend_item_spec:
  "recommend_item v c r =
     (if spec_surge_numeric (c, r) then Inr (spec_item_recs v (c, r)) else Inl TypeError)"
  by (cases r)
    (auto simp: recommend_item_def spec_surge_numeric_def spec_item_recs_def spec_surge_height_def
      py_gt_def Let_def split: option.splits)

lemma recommend_loop_spec:
  "recommend_loop v threats recommendations =
     (if list_all spec_surge_numeric threats
      then Inr (recommendations @ concat (map (spec_item_recs v) threats))
      else Inl TypeError)"
proof (induction threats arbitrary: recommendations)
  case Nil
  show ?case by simp
next
  case (Cons p rest)
  obtain c r where p: "p = (c, r)" by (cases p)
  show ?case unfolding p by (simp add: recommend_item_spec Cons.IH)
qed

text \<open>
  Claim C5. For every threats mapping the generator visits the categories in insertion
  order and appends, for each entry without an \<^verbatim>\<open>error\<close> key, the storm-surge warning
  exactly when the surge height is above 1.0, "Monitor coastal conditions closely" exactly
  when it is above 0.5 and at most 1.0, the coastal protection advice exactly when the risk
  level is high or critical, and the blue-carbon protocol exactly when the threat level is
  significant or severe: its result is the concatenation, in the order of the mapping, of
  what the rules give for each entry (in \<^verbatim>\<open>ai_service_simple.py\<close>, the fallback string
  when that is empty). A storm surge of height 1.5 followed by a critical coastal erosion
  yields the storm-surge strings before the erosion strings. A surge height that is not a
  number makes the comparison raise \<^verbatim>\<open>TypeError\<close>.
\<close>

theorem generate_recommendations_rules:
  "generate_recommendations Full threats =
     (if list_all spec_surge_numeric threats
      then Inr (concat (map (spec_item_recs Full) threats)) else Inl TypeError)
   \<and> generate_recommendations Simplified threats =
     (if list_all spec_surge_numeric threats
      then Inr (if concat (map (spec_item_recs Simplified) threats) = []
                then [''Continue routine monitoring'']
                else concat (map (spec_item_recs Simplified) threats))
      else Inl TypeError)
   \<and> generate_recommendations Full
        [(''storm_surge'', PyDict [(''surge_height'', PyNum 1.5)]),
         (''coastal_erosion'', PyDict [(''risk_level'', PyStr ''critical'')])] =
      Inr [''Issue storm surge warning - evacuate low-lying areas'',
           ''Deploy emergency response teams'',
           ''Implement emergency coastal protection measures'',
           ''Restrict beach access in high-risk areas'']
   \<and> generate_recommendations Simplified
        [(''storm_surge'', PyDict [(''surge_height'', PyNum 1.5)]),
         (''coastal_erosion'', PyDict [(''risk_level'', PyStr ''critical'')])] =
      Inr [''Issue storm surge warning - evacuate low-lying areas'',
           ''Implement emergency coastal protection measures'']"
  by (simp add: generate_recommendations_def recommend_loop_spec routine_monitoring_def
      spec_surge_numeric_def spec_item_recs_def spec_surge_height_def has_key_def dict_get_def
      storm_warning_def coastal_protection_def)

theorem generate_recommendations_rules_witness:
  "generate_recommendations Full
        [(''coastal_erosion'', PyDict [(''risk_level'', PyStr ''high'')]),
         (''storm_surge'', PyDict [(''surge_height'', PyNum 0.8), (''risk_level'', PyStr ''medium'')]),
         (''blue_carbon'', PyDict [(''error'', PyStr ''boom''), (''threat_level'', PyStr ''unknown'')])] =
      Inr [''Implement emergency coastal protection measures'',
           ''Restrict beach access in high-risk areas'',
           ''Monitor coastal conditions closely'']
   \<and> generate_recommendations Simplified
        [(''storm_surge'', PyDict [(''surge_height'', PyNum 1)]),
         (''blue_carbon'', PyDict [(''threat_level'', PyStr ''severe'')])] =
      Inr [''Monitor coastal conditions closely'',
           ''Activate blue carbon ecosystem protection protocols'']
   \<and> generate_recommendations Simplified
        [(''storm_surge'', PyDict [(''surge_height'', PyStr ''1.5'')])] = Inl TypeError"
  using generate_recommendations_rules
      [of "[(''coastal_erosion'', PyDict [(''risk_level'', PyStr ''high'')]),
         (''storm_surge'', PyDict [(''surge_height'', PyNum 0.8), (''risk_level'', PyStr ''medium'')]),
         (''blue_carbon'', PyDict [(''error'', PyStr ''boom''), (''threat_level'', PyStr ''unknown'')])]"]
    generate_recommendations_rules
      [of "[(''storm_surge'', PyDict [(''surge_height'', PyNum 1)]),
         (''blue_carbon'', PyDict [(''threat_level'', PyStr ''severe'')])]"]
    generate_recommendations_rules
      [of "[(''storm_surge'', PyDict [(''surge_height'', PyStr ''1.5'')])]"]
  by (simp add: spec_surge_numeric_def spec_item_recs_def spec_surge_height_def has_key_def
      dict_get_def storm_warning_def coastal_protection_def carbon_protection_def storm_monitor_def)

subsection \<open>The two variants of the recommendation generator\<close>

text \<open>
  For every item the rules of \<^verbatim>\<open>ai_service_simple.py\<close> give the strings of
  \<^verbatim>\<open>ai_service.py\<close> without the second strings, a rule fires in one variant exactly when
  it fires in the other, and no rule gives the fallback string.
\<close>

lemma spec_item_recs_filter:
  "filter (\<lambda>s. s \<notin> set second_strings) (spec_item_recs Full item) = spec_item_recs Simplified item"
  by (cases "snd item")
    (auto simp: spec_item_recs_def second_strings_def storm_warning_def storm_monitor_def
      coastal_protection_def carbon_protection_def)

lemma spec_item_recs_empty:
  "spec_item_recs Full item = [] \<longleftrightarrow> spec_item_recs Simplified item = []"
  by (cases "snd item")
    (auto simp: spec_item_recs_def storm_warning_def storm_monitor_def
      coastal_protection_def carbon_protection_def)

lemma spec_item_recs_no_fallback:
  "routine_monitoring \<notin> set (spec_item_recs v item)"
  by (cases "snd item"; cases v)
    (auto simp: spec_item_recs_def routine_monitoring_def storm_warning_def storm_monitor_def
      coastal_protection_def carbon_protection_def)

lemma concat_recs_filter:
  "filter (\<lambda>s. s \<notin> set second_strings) (concat (map (spec_item_recs Full) threats)) =
     concat (map (spec_item_recs Simplified) threats)"
  by (simp add: filter_concat comp_def spec_item_recs_filter)

lemma concat_recs_empty:
  "concat (map (spec_item_recs v) threats) = [] \<longleftrightarrow>
     list_all (\<lambda>item. spec_item_recs Simplified item = []) threats"
  by (cases v) (simp_all add: list_all_iff spec_item_recs_empty)

lemma concat_recs_no_fallback:
  "routine_monitoring \<notin> set (concat (map (spec_item_recs v) threats))"
  by (simp add: spec_item_recs_no_fallback)

text \<open>
  Claim C8, as stated: the two variants disagree exactly on the empty case. They disagree
  as well where a rule fires: for a storm surge of height 1.5 \<^verbatim>\<open>ai_service.py\<close> returns
  the warning and "Deploy emergency response teams", \<^verbatim>\<open>ai_service_simple.py\<close> the warning
  alone.
\<close>

theorem variants_disagree_where_a_rule_fires:
  "generate_recommendations Full [(''storm_surge'', PyDict [(''surge_height'', PyNum 1.5)])] =
     Inr [''Issue storm surge warning - evacuate low-lying areas'',
          ''Deploy emergency response teams'']
   \<and> generate_recommendations Simplified [(''storm_surge'', PyDict [(''surge_height'', PyNum 1.5)])] =
     Inr [''Issue storm surge warning - evacuate low-lying areas'']"
  by (simp add: generate_recommendations_def recommend_item_def has_key_def dict_get_def
      py_gt_def storm_warning_def)

text \<open>
  Claim C8, amended: for every threats mapping whose storm-surge heights are numbers, when
  no rule fires \<^verbatim>\<open>ai_service.py\<close> returns the empty list and \<^verbatim>\<open>ai_service_simple.py\<close>
  returns the single fallback string; when at least one rule fires both return non-empty
  lists without the fallback string, and the list of \<^verbatim>\<open>ai_service_simple.py\<close> is the list
  of \<^verbatim>\<open>ai_service.py\<close> without the second strings ("Deploy emergency response teams",
  "Restrict beach access in high-risk areas", "Deploy rapid response conservation team"),
  so that the variants differ there too whenever such a string was appended.
\<close>

theorem generate_recommendations_variants:
  assumes "list_all spec_surge_numeric threats"
  shows "(list_all (\<lambda>item. spec_item_recs Simplified item = []) threats \<longrightarrow>
            generate_recommendations Full threats = Inr [] \<and>
            generate_recommendations Simplified threats = Inr [''Continue routine monitoring''])
       \<and> (\<not> list_all (\<lambda>item. spec_item_recs Simplified item = []) threats \<longrightarrow>
            (\<exists>rf rs. generate_recommendations Full threats = Inr rf \<and>
                     generate_recommendations Simplified threats = Inr rs \<and>
                     rf \<noteq> [] \<and> rs \<noteq> [] \<and>
                     ''Continue routine monitoring'' \<notin> set rf \<and>
                     ''Continue routine monitoring'' \<notin> set rs \<and>
                     rs = filter (\<lambda>s. s \<notin> set second_strings) rf))"
proof -
  let ?rf = "concat (map (spec_item_recs Full) threats)"
  let ?rs = "concat (map (spec_item_recs Simplified) threats)"
  have full: "generate_recommendations Full threats = Inr ?rf"
    using assms by (simp add: generate_recommendations_def recommend_loop_spec)
  have simple: "generate_recommendations Simplified threats =
      Inr (if ?rs = [] then [''Continue routine monitoring''] else ?rs)"
    using assms
    by (simp add: generate_recommendations_def recommend_loop_spec routine_monitoring_def)
  have rf_empty: "?rf = [] \<longleftrightarrow> list_all (\<lambda>item. spec_item_recs Simplified item = []) threats"
    by (rule concat_recs_empty)
  have rs_empty: "?rs = [] \<longleftrightarrow> list_all (\<lambda>item. spec_item_recs Simplified item = []) threats"
    by (rule concat_recs_empty)
  have nf: "''Continue routine monitoring'' \<notin> set ?rf" "''Continue routine monitoring'' \<notin> set ?rs"
    using concat_recs_no_fallback [of Full threats] concat_recs_no_fallback [of Simplified threats]
    by (simp_all add: routine_monitoring_def)
  have flt: "?rs = filter (\<lambda>s. s \<notin> set second_strings) ?rf"
    by (rule concat_recs_filter [symmetric])
  show ?thesis
  proof (cases "list_all (\<lambda>item. spec_item_recs Simplified item = []) threats")
    case True
    with full simple rf_empty rs_empty show ?thesis by simp
  next
    case False
    with rf_empty rs_empty have ne: "?rf \<noteq> []" "?rs \<noteq> []" by simp_all
    from simple ne(2) have "generate_recommendations Simplified threats = Inr ?rs"
      by (simp only: if_False)
    with full ne nf flt False show ?thesis by blast
  qed
qed

theorem generate_recommendations_variants_witness:
  "generate_recommendations Full
      [(''storm_surge'', PyDict [(''surge_height'', PyNum 0.3), (''risk_level'', PyStr ''low'')]),
       (''weather_forecast'', PyDict [(''predictions'', PyList [])])] = Inr []
   \<and> generate_recommendations Simplified
      [(''storm_surge'', PyDict [(''surge_height'', PyNum 0.3), (''risk_level'', PyStr ''low'')]),
       (''weather_forecast'', PyDict [(''predictions'', PyList [])])] =
      Inr [''Continue routine monitoring'']
   \<and> (\<exists>rf rs. generate_recommendations Full
                 [(''blue_carbon'', PyDict [(''threat_level'', PyStr ''severe'')])] = Inr rf \<and>
               generate_recommendations Simplified
                 [(''blue_carbon'', PyDict [(''threat_level'', PyStr ''severe'')])] = Inr rs \<and>
               rf \<noteq> [] \<and> rs \<noteq> [] \<and>
               ''Continue routine monitoring'' \<notin> set rf \<and>
               ''Continue routine monitoring'' \<notin> set rs \<and>
               rs = filter (\<lambda>s. s \<notin> set second_strings) rf)"
proof -
  have a: "list_all spec_surge_numeric
      [(''storm_surge'', PyDict [(''surge_height'', PyNum 0.3), (''risk_level'', PyStr ''low'')]),
       (''weather_forecast'', PyDict [(''predictions'', PyList [])])]"
    by (simp add: spec_surge_numeric_def spec_surge_height_def dict_get_def has_key_def)
  have b: "list_all spec_surge_numeric [(''blue_carbon'', PyDict [(''threat_level'', PyStr ''severe'')])]"
    by (simp add: spec_surge_numeric_def)
  have c: "list_all (\<lambda>item. spec_item_recs Simplified item = [])
      [(''storm_surge'', PyDict [(''surge_height'', PyNum 0.3), (''risk_level'', PyStr ''low'')]),
       (''weather_forecast'', PyDict [(''predictions'', PyList [])])]"
    by (simp add: spec_item_recs_def spec_surge_height_def dict_get_def has_key_def)
  have d: "\<not> list_all (\<lambda>item. spec_item_recs Simplified item = [])
      [(''blue_carbon'', PyDict [(''threat_level'', PyStr ''severe'')])]"
    by (simp add: spec_item_recs_def dict_get_def has_key_def carbon_protection_def)
  from generate_recommendations_variants [OF a] c generate_recommendations_variants [OF b] d
  show ?thesis by blast
qed

subsection \<open>Monotonicity of the aggregator\<close>

lemma spec_collected_labels_append:
  "spec_collected_labels (xs @ ys) = spec_collected_labels xs @ spec_collected_labels ys"
  by (simp add: spec_collected_labels_def map_filter_def)

lemma spec_label_rank_recognized:
  "map_of risk_scores l = Some k \<Longrightarrow> spec_label_rank (PyStr l) = k"
  by (auto simp: risk_scores_def spec_label_rank_def split: if_splits)

lemma classify_mono:
  fixes m m' :: real
  assumes "m \<le> m'"
  shows "spec_level_order
           (if m < 1.5 then ''low'' else if m < 2.5 then ''medium''
            else if m < 3.5 then ''high'' else ''critical'')
         \<le> spec_level_order
           (if m' < 1.5 then ''low'' else if m' < 2.5 then ''medium''
            else if m' < 3.5 then ''high'' else ''critical'')"
  using assms by (auto simp: spec_level_order_def)

lemma calculate_overall_risk_labels:
  "calculate_overall_risk threats =
     (if list_all hashable (spec_collected_labels threats)
      then Inr (let ranks = map spec_label_rank (spec_collected_labels threats) in
                if ranks = [] then ''unknown''
                else (let m = real_of_int (sum_list ranks) / real (length ranks) in
                      if m < 1.5 then ''low'' else if m < 2.5 then ''medium''
                      else if m < 3.5 then ''high'' else ''critical''))
      else Inl TypeError)"
  by (simp add: calculate_overall_risk_def collect_scores_spec spec_collected_ranks_def Let_def)

text \<open>
  Claim C10. In every threats mapping, replacing one entry without error whose label is
  in the rank table by an entry whose label is in the table with a strictly higher rank
  (the same entry with its label raised, in particular) never lowers the label the
  aggregator returns, in the order low, medium, high, critical; when the aggregator raises
  on the mapping, because of an unhashable label elsewhere, it raises on the changed mapping
  too.
\<close>

theorem calculate_overall_risk_monotone:
  assumes r: "spec_result_label r = Some (PyStr l)"
    and r': "spec_result_label r' = Some (PyStr l')"
    and k: "map_of risk_scores l = Some k"
    and k': "map_of risk_scores l' = Some k'"
    and less: "k < k'"
  shows "(\<forall>e. calculate_overall_risk (pre @ (c, r) # post) = Inl e \<longrightarrow>
              calculate_overall_risk (pre @ (c, r') # post) = Inl e)
       \<and> (\<forall>a. calculate_overall_risk (pre @ (c, r) # post) = Inr a \<longrightarrow>
              (\<exists>b. calculate_overall_risk (pre @ (c, r') # post) = Inr b \<and>
                   spec_level_order a \<le> spec_level_order b))"
proof -
  let ?L = "spec_collected_labels pre" and ?R = "spec_collected_labels post"
  let ?cls = "\<lambda>m::real. if m < 1.5 then ''low'' else if m < 2.5 then ''medium''
                else if m < 3.5 then ''high'' else ''critical''"
  have labels: "spec_collected_labels (pre @ (c, r) # post) = ?L @ PyStr l # ?R"
    using r by (simp add: spec_collected_labels_append spec_collected_labels_Cons)
  have labels': "spec_collected_labels (pre @ (c, r') # post) = ?L @ PyStr l' # ?R"
    using r' by (simp add: spec_collected_labels_append spec_collected_labels_Cons)
  let ?s = "sum_list (map spec_label_rank ?L) + sum_list (map spec_label_rank ?R)"
  let ?n = "real (length ?L + length ?R + 1)"
  have rk: "spec_label_rank (PyStr l) = k" "spec_label_rank (PyStr l') = k'"
    using k k' by (simp_all add: spec_label_rank_recognized)
  have n: "0 < ?n" by simp
  have mean: "real_of_int (?s + k) / ?n \<le> real_of_int (?s + k') / ?n"
    using less n by (simp add: divide_right_mono)
  show ?thesis
  proof (cases "list_all hashable ?L \<and> list_all hashable ?R")
    case False
    then have "calculate_overall_risk (pre @ (c, r) # post) = Inl TypeError"
      and "calculate_overall_risk (pre @ (c, r') # post) = Inl TypeError"
      by (auto simp: calculate_overall_risk_labels labels labels')
    then show ?thesis by simp
  next
    case True
    then have a: "calculate_overall_risk (pre @ (c, r) # post) = Inr (?cls (real_of_int (?s + k) / ?n))"
      by (simp add: calculate_overall_risk_labels labels rk Let_def add.commute add.left_commute)
    from True have b: "calculate_overall_risk (pre @ (c, r') # post) = Inr (?cls (real_of_int (?s + k') / ?n))"
      by (simp add: calculate_overall_risk_labels labels' rk Let_def add.commute add.left_commute)
    from classify_mono [OF mean] a b show ?thesis by simp
  qed
qed

theorem calculate_overall_risk_monotone_witness:
  "\<exists>b. calculate_overall_risk
         [(''storm_surge'', PyDict [(''surge_height'', PyNum 0.2), (''risk_level'', PyStr ''low'')]),
          (''coastal_erosion'', PyDict [(''risk_level'', PyStr ''critical'')]),
          (''blue_carbon'', PyDict [(''threat_level'', PyStr ''minimal'')])] = Inr b \<and>
       spec_level_order ''low'' \<le> spec_level_order b"
proof -
  have a: "calculate_overall_risk
      ([(''storm_surge'', PyDict [(''surge_height'', PyNum 0.2), (''risk_level'', PyStr ''low'')])] @
       (''coastal_erosion'', PyDict [(''risk_level'', PyStr ''low'')]) #
       [(''blue_carbon'', PyDict [(''threat_level'', PyStr ''minimal'')])]) = Inr ''low''"
    by (simp add: calculate_overall_risk_def has_key_def risk_scores_get_def risk_scores_def)
  have "spec_result_label (PyDict [(''risk_level'', PyStr ''low'')]) = Some (PyStr ''low'')"
    and "spec_result_label (PyDict [(''risk_level'', PyStr ''critical'')]) = Some (PyStr ''critical'')"
    and "map_of risk_scores ''low'' = Some 1" and "map_of risk_scores ''critical'' = Some 4"
    and "(1::int) < 4"
    by (simp_all add: spec_result_label_def has_key_def risk_scores_def)
  from calculate_overall_risk_monotone [OF this,
      of "[(''storm_surge'', PyDict [(''surge_height'', PyNum 0.2), (''risk_level'', PyStr ''low'')])]"
         "''coastal_erosion''" "[(''blue_carbon'', PyDict [(''threat_level'', PyStr ''minimal'')])]"] a
  show ?thesis by simp
qed

subsection \<open>The effect of historical weather\<close>

lemma map_of_without_key:
  "map_of (without_key k d) x = (if x = k then None else map_of d x)"
  by (induction d) (auto simp: without_key_def)

lemma has_key_without_key:
  "has_key x (without_key k d) = (x \<noteq> k \<and> has_key x d)"
  by (simp add: has_key_def map_of_without_key)

lemma dict_get_without_key:
  "x \<noteq> k \<Longrightarrow> dict_get (without_key k d) x dflt = dict_get d x dflt"
  by (simp add: dict_get_def map_of_without_key)

lemma weather_forecast_no_label:
  "spec_result_label (predict_weather_sequence v p h) = None"
  by (cases v)
    (auto simp: predict_weather_sequence_def spec_result_label_def has_key_def
      split: option.splits sum.splits)

lemma weather_forecast_no_rule:
  "spec_item_recs v' (''weather_forecast'', r) = []"
  "spec_surge_numeric (''weather_forecast'', r)"
  by (cases r; simp add: spec_item_recs_def spec_surge_numeric_def)+

lemma collect_threats_historical_weather:
  "collect_threats v p input_data =
     collect_threats v p (without_key ''historical_weather'' input_data) @
     (if has_key ''historical_weather'' input_data
      then [(''weather_forecast'',
             predict_weather_sequence v p (dict_get input_data ''historical_weather'' PyNone))]
      else [])"
  by (simp add: collect_threats_def has_key_without_key dict_get_without_key)

lemma collect_threats_no_forecast:
  "\<not> has_key ''historical_weather'' d \<Longrightarrow>
     without_key ''weather_forecast'' (collect_threats v p d) = collect_threats v p d"
  by (simp add: collect_threats_def without_key_def Let_def)

lemma collect_threats_without_forecast:
  "without_key ''weather_forecast'' (collect_threats v p input_data) =
     collect_threats v p (without_key ''historical_weather'' input_data)"
proof -
  have "\<not> has_key ''historical_weather'' (without_key ''historical_weather'' input_data)"
    by (simp add: has_key_without_key)
  from collect_threats_no_forecast [OF this]
  have base: "without_key ''weather_forecast''
        (collect_threats v p (without_key ''historical_weather'' input_data)) =
      collect_threats v p (without_key ''historical_weather'' input_data)" .
  have app: "without_key ''weather_forecast'' (xs @ ys) =
      without_key ''weather_forecast'' xs @ without_key ''weather_forecast'' ys" for xs ys
    by (simp add: without_key_def)
  have tail: "without_key ''weather_forecast'' [(''weather_forecast'', r)] = []"
    "without_key ''weather_forecast'' [] = []" for r
    by (simp_all add: without_key_def)
  show ?thesis
    by (subst collect_threats_historical_weather) (simp add: app base tail)
qed

lemma calculate_overall_risk_forecast:
  "calculate_overall_risk (ts @ [(''weather_forecast'', predict_weather_sequence v p h)]) =
     calculate_overall_risk ts"
  by (simp add: calculate_overall_risk_def collect_scores_spec spec_collected_ranks_def
      spec_collected_labels_append spec_collected_labels_Cons spec_collected_labels_Nil
      weather_forecast_no_label)

lemma generate_recommendations_forecast:
  "generate_recommendations v' (ts @ [(''weather_forecast'', r)]) = generate_recommendations v' ts"
  by (simp add: generate_recommendations_def recommend_loop_spec weather_forecast_no_rule)

lemma map_of_dict_set:
  "map_of (dict_set k v d) x = (if x = k then Some v else map_of d x)"
  by (induction d) auto

lemma weather_forecast_shape:
  "\<exists>d. predict_weather_sequence v p h = PyDict d \<and>
       \<not> has_key ''risk_level'' d \<and> \<not> has_key ''threat_level'' d"
  by (cases v)
    (auto simp: predict_weather_sequence_def has_key_def split: option.splits sum.splits)

lemma aggregate_without_historical_weather:
  "calculate_overall_risk (collect_threats v p input_data) =
     calculate_overall_risk (collect_threats v p (without_key ''historical_weather'' input_data))"
  "generate_recommendations v (collect_threats v p input_data) =
     generate_recommendations v (collect_threats v p (without_key ''historical_weather'' input_data))"
  by (subst collect_threats_historical_weather,
      simp add: calculate_overall_risk_forecast generate_recommendations_forecast)+

lemma analysis_fields:
  "map_of (comprehensive_threat_analysis v p now input_data) k =
     (let threats = collect_threats v p input_data in
      if k = ''timestamp'' then Some (PyStr now)
      else if k = ''confidence'' then Some (PyNum (case v of Full \<Rightarrow> 0.8 | Simplified \<Rightarrow> 0.7))
      else if k = ''threats'' then Some (PyDict threats)
      else if k = ''overall_risk'' then
        (case calculate_overall_risk threats of
           Inl e \<Rightarrow> Some (PyStr ''low'') | Inr risk \<Rightarrow> Some (PyStr risk))
      else if k = ''recommendations'' then
        (case calculate_overall_risk threats of
           Inl e \<Rightarrow> None
         | Inr risk \<Rightarrow>
             (case generate_recommendations v threats of
                Inl e \<Rightarrow> None | Inr recs \<Rightarrow> Some (PyList (map PyStr recs))))
      else if k = ''error'' then
        (case calculate_overall_risk threats of
           Inl e \<Rightarrow> Some (PyStr (exc_str e))
         | Inr risk \<Rightarrow>
             (case generate_recommendations v threats of
                Inl e \<Rightarrow> Some (PyStr (exc_str e)) | Inr recs \<Rightarrow> None))
      else None)"
  by (simp add: comprehensive_threat_analysis_def Let_def map_of_dict_set
      split: sum.splits)

text \<open>
  Claim C7. Supplying \<open>historical_weather\<close> only adds the entry \<open>weather_forecast\<close> to the
  threats of the analysis. A forecast result is a dict with neither \<open>risk_level\<close> nor
  \<open>threat_level\<close>, the threats without the key \<open>historical_weather\<close> are the threats with it
  minus the entry \<open>weather_forecast\<close>, and every other field of the result, \<open>overall_risk\<close>
  and \<open>recommendations\<close> among them, is the same with and without the key.
\<close>

theorem historical_weather_frame:
  "(\<exists>d. predict_weather_sequence v p h = PyDict d \<and>
        \<not> has_key ''risk_level'' d \<and> \<not> has_key ''threat_level'' d)
   \<and> collect_threats v p (without_key ''historical_weather'' input_data) =
       without_key ''weather_forecast'' (collect_threats v p input_data)
   \<and> map_of (comprehensive_threat_analysis v p now input_data) ''threats'' =
       Some (PyDict (collect_threats v p input_data))
   \<and> map_of (comprehensive_threat_analysis v p now input_data) ''overall_risk'' =
       map_of (comprehensive_threat_analysis v p now
                 (without_key ''historical_weather'' input_data)) ''overall_risk''
   \<and> map_of (comprehensive_threat_analysis v p now input_data) ''recommendations'' =
       map_of (comprehensive_threat_analysis v p now
                 (without_key ''historical_weather'' input_data)) ''recommendations''
   \<and> (\<forall>k. k \<noteq> ''threats'' \<longrightarrow>
         map_of (comprehensive_threat_analysis v p now input_data) k =
         map_of (comprehensive_threat_analysis v p now
                   (without_key ''historical_weather'' input_data)) k)"
proof -
  have frame: "map_of (comprehensive_threat_analysis v p now input_data) k =
      map_of (comprehensive_threat_analysis v p now
                (without_key ''historical_weather'' input_data)) k"
    if "k \<noteq> ''threats''" for k
    using that
    by (simp add: analysis_fields Let_def
        aggregate_without_historical_weather [of v p input_data, symmetric]
        cong: sum.case_cong)
  have threats: "map_of (comprehensive_threat_analysis v p now input_data) ''threats'' =
      Some (PyDict (collect_threats v p input_data))"
    by (simp add: analysis_fields)
  from weather_forecast_shape [of v p h] collect_threats_without_forecast [of v p input_data]
    threats frame [of "''overall_risk''"] frame [of "''recommendations''"] frame
  show ?thesis by simp
qed

theorem historical_weather_frame_witness:
  "map_of (comprehensive_threat_analysis Full
      \<lparr> models_loaded = True, storm_surge_model = Some (\<lambda>d. Inr 1.2),
        coastal_erosion_model = None, blue_carbon_threat_model = None,
        weather_prediction_model = Some (\<lambda>h. Inr [PyDict [(''hour_offset'', PyNum 1)]]),
        weather_trend = (\<lambda>h. Inr []) \<rparr>
      ''2025-01-01T00:00:00''
      [(''weather'', PyDict [(''wind_speed'', PyNum 35)]), (''historical_weather'', PyList [])])
     ''overall_risk'' = Some (PyStr ''high'')
   \<and> map_of (comprehensive_threat_analysis Full
      \<lparr> models_loaded = True, storm_surge_model = Some (\<lambda>d. Inr 1.2),
        coastal_erosion_model = None, blue_carbon_threat_model = None,
        weather_prediction_model = Some (\<lambda>h. Inr [PyDict [(''hour_offset'', PyNum 1)]]),
        weather_trend = (\<lambda>h. Inr []) \<rparr>
      ''2025-01-01T00:00:00''
      [(''weather'', PyDict [(''wind_speed'', PyNum 35)])])
     ''overall_risk'' = Some (PyStr ''high'')"
proof -
  let ?p = "\<lparr> models_loaded = True, storm_surge_model = Some (\<lambda>d. Inr 1.2),
        coastal_erosion_model = None, blue_carbon_threat_model = None,
        weather_prediction_model = Some (\<lambda>h. Inr [PyDict [(''hour_offset'', PyNum 1)]]),
        weather_trend = (\<lambda>h. Inr []) \<rparr>"
  let ?in = "[(''weather'', PyDict [(''wind_speed'', PyNum 35)]), (''historical_weather'', PyList [])]"
  have w: "without_key ''historical_weather'' ?in = [(''weather'', PyDict [(''wind_speed'', PyNum 35)])]"
    by (simp add: without_key_def)
  have "''overall_risk'' \<noteq> ''threats''" by simp
  with historical_weather_frame [of Full ?p "PyList []" ?in "''2025-01-01T00:00:00''"]
  have eq: "map_of (comprehensive_threat_analysis Full ?p ''2025-01-01T00:00:00'' ?in) ''overall_risk'' =
      map_of (comprehensive_threat_analysis Full ?p ''2025-01-01T00:00:00''
        (without_key ''historical_weather'' ?in)) ''overall_risk''"
    by blast
  have "map_of (comprehensive_threat_analysis Full ?p ''2025-01-01T00:00:00''
        [(''weather'', PyDict [(''wind_speed'', PyNum 35)])]) ''overall_risk'' = Some (PyStr ''high'')"
    by (simp add: comprehensive_threat_analysis_def collect_threats_def has_key_def dict_get_def
        predict_storm_surge_def model_unavailable_def categorize_surge_risk_def
        calculate_overall_risk_def risk_scores_get_def risk_scores_def
        generate_recommendations_def recommend_item_def py_gt_def storm_warning_def Let_def)
  with eq w show ?thesis by simp
qed

subsection \<open>Results that carry an error\<close>

lemma spec_collected_labels_filter:
  "spec_collected_labels (filter (\<lambda>(c, r). \<not> carries_error r) threats) =
     spec_collected_labels threats"
  by (induction threats)
    (auto simp: spec_collected_labels_Cons spec_collected_labels_Nil spec_result_label_def
      carries_error_def split: pyval.splits option.splits)

lemma carries_error_no_rule:
  "carries_error r \<Longrightarrow> spec_surge_numeric (c, r)"
  "carries_error r \<Longrightarrow> spec_item_recs v (c, r) = []"
  by (auto simp: carries_error_def spec_surge_numeric_def spec_item_recs_def
      split: pyval.splits)

lemma surge_numeric_filter:
  "list_all spec_surge_numeric (filter (\<lambda>(c, r). \<not> carries_error r) threats) =
     list_all spec_surge_numeric threats"
  by (induction threats) (auto simp: carries_error_no_rule)

lemma item_recs_filter:
  "concat (map (spec_item_recs v) (filter (\<lambda>(c, r). \<not> carries_error r) threats)) =
     concat (map (spec_item_recs v) threats)"
  by (induction threats) (auto simp: carries_error_no_rule)

lemma calculate_overall_risk_filter:
  "calculate_overall_risk (filter (\<lambda>(c, r). \<not> carries_error r) threats) =
     calculate_overall_risk threats"
  by (simp add: calculate_overall_risk_def collect_scores_spec spec_collected_ranks_def
      spec_collected_labels_filter)

lemma generate_recommendations_filter:
  "generate_recommendations v (filter (\<lambda>(c, r). \<not> carries_error r) threats) =
     generate_recommendations v threats"
  by (simp add: generate_recommendations_def recommend_loop_spec surge_numeric_filter
      item_recs_filter)

lemma collect_threats_only_ecosystem:
  assumes "has_key ''ecosystem'' input_data" "\<not> has_key ''weather'' input_data"
    "\<not> has_key ''coastal'' input_data" "\<not> has_key ''historical_weather'' input_data"
  shows "collect_threats v p input_data =
     [(''blue_carbon'', predict_blue_carbon_threat v p (dict_get input_data ''ecosystem'' PyNone))]"
  using assms by (simp add: collect_threats_def)

lemma blue_carbon_failure:
  "model_unavailable v p (blue_carbon_threat_model p) \<Longrightarrow>
     predict_blue_carbon_threat v p ecosystem_data =
       PyDict [(''error'', PyStr ''Blue carbon model not available''),
               (''threat_level'', PyStr ''unknown'')]"
  "\<not> model_unavailable v p (blue_carbon_threat_model p) \<Longrightarrow>
   blue_carbon_threat_model p = Some model \<Longrightarrow> model d = Inl msg \<Longrightarrow>
     predict_blue_carbon_threat v p (PyDict d) =
       PyDict [(''error'', PyStr msg), (''threat_level'', PyStr ''unknown'')]"
  by (simp_all add: predict_blue_carbon_threat_def)

text \<open>
  Claim C6. A result with an \<open>error\<close> key is ignored by the overall-risk aggregator and by
  the recommendation generator: on every threats mapping, each of them returns (or raises)
  what it does on the mapping with the entries carrying an error removed. When only the
  section \<open>ecosystem\<close> is present and the blue-carbon prediction comes back with an error,
  the analysis has that result under \<open>threats.blue_carbon\<close>, the overall risk \<open>unknown\<close>
  and no top-level \<open>error\<close>. The prediction comes back with an error when the model raises
  and when the model is not available.
\<close>

theorem error_results_are_ignored:
  "calculate_overall_risk threats =
     calculate_overall_risk (filter (\<lambda>(c, r). \<not> carries_error r) threats)
   \<and> generate_recommendations v threats =
     generate_recommendations v (filter (\<lambda>(c, r). \<not> carries_error r) threats)
   \<and> (has_key ''ecosystem'' input_data \<and> \<not> has_key ''weather'' input_data \<and>
       \<not> has_key ''coastal'' input_data \<and> \<not> has_key ''historical_weather'' input_data \<and>
       carries_error (predict_blue_carbon_threat v p (dict_get input_data ''ecosystem'' PyNone)) \<longrightarrow>
         map_of (comprehensive_threat_analysis v p now input_data) ''threats'' =
           Some (PyDict [(''blue_carbon'',
                   predict_blue_carbon_threat v p (dict_get input_data ''ecosystem'' PyNone))])
         \<and> map_of (comprehensive_threat_analysis v p now input_data) ''overall_risk'' =
             Some (PyStr ''unknown'')
         \<and> \<not> has_key ''error'' (comprehensive_threat_analysis v p now input_data))
   \<and> (\<not> model_unavailable v p (blue_carbon_threat_model p) \<and>
       blue_carbon_threat_model p = Some model \<and> model d = Inl msg \<longrightarrow>
         predict_blue_carbon_threat v p (PyDict d) =
           PyDict [(''error'', PyStr msg), (''threat_level'', PyStr ''unknown'')])
   \<and> (model_unavailable v p (blue_carbon_threat_model p) \<longrightarrow>
         carries_error (predict_blue_carbon_threat v p ecosystem_data))"
proof -
  have scenario: "map_of (comprehensive_threat_analysis v p now input_data) ''threats'' =
           Some (PyDict [(''blue_carbon'',
                   predict_blue_carbon_threat v p (dict_get input_data ''ecosystem'' PyNone))])
         \<and> map_of (comprehensive_threat_analysis v p now input_data) ''overall_risk'' =
             Some (PyStr ''unknown'')
         \<and> \<not> has_key ''error'' (comprehensive_threat_analysis v p now input_data)"
    if present: "has_key ''ecosystem'' input_data" "\<not> has_key ''weather'' input_data"
       "\<not> has_key ''coastal'' input_data" "\<not> has_key ''historical_weather'' input_data"
      and failed: "carries_error
         (predict_blue_carbon_threat v p (dict_get input_data ''ecosystem'' PyNone))"
  proof -
    let ?r = "predict_blue_carbon_threat v p (dict_get input_data ''ecosystem'' PyNone)"
    have threats: "collect_threats v p input_data = [(''blue_carbon'', ?r)]"
      using present by (rule collect_threats_only_ecosystem)
    from failed have kept: "filter (\<lambda>(c, r). \<not> carries_error r) [(''blue_carbon'', ?r)] = []"
      by simp
    have "calculate_overall_risk [(''blue_carbon'', ?r)] = calculate_overall_risk []"
      using calculate_overall_risk_filter [of "[(''blue_carbon'', ?r)]"] by (simp only: kept)
    then have risk: "calculate_overall_risk [(''blue_carbon'', ?r)] = Inr ''unknown''"
      by (simp add: calculate_overall_risk_def)
    have "generate_recommendations v [(''blue_carbon'', ?r)] = generate_recommendations v []"
      using generate_recommendations_filter [of v "[(''blue_carbon'', ?r)]"] by (simp only: kept)
    then have "\<exists>recommendations.
        generate_recommendations v [(''blue_carbon'', ?r)] = Inr recommendations"
      by (cases v) (simp_all add: generate_recommendations_def)
    then obtain recommendations
      where recs: "generate_recommendations v [(''blue_carbon'', ?r)] = Inr recommendations"
      by blast
    show ?thesis
      by (simp add: has_key_def analysis_fields threats risk recs)
  qed
  have unavailable: "carries_error (predict_blue_carbon_threat v p ecosystem_data)"
    if "model_unavailable v p (blue_carbon_threat_model p)"
    using that by (simp add: blue_carbon_failure(1) carries_error_def has_key_def)
  have aggregator: "calculate_overall_risk threats =
      calculate_overall_risk (filter (\<lambda>(c, r). \<not> carries_error r) threats)"
    by (simp only: calculate_overall_risk_filter)
  have generator: "generate_recommendations v threats =
      generate_recommendations v (filter (\<lambda>(c, r). \<not> carries_error r) threats)"
    by (simp only: generate_recommendations_filter)
  from aggregator generator scenario blue_carbon_failure(2) [of v p model d msg] unavailable
  show ?thesis by blast
qed

theorem error_results_are_ignored_witness:
  "map_of (comprehensive_threat_analysis Simplified
      \<lparr> models_loaded = True, storm_surge_model = None, coastal_erosion_model = None,
        blue_carbon_threat_model = Some (\<lambda>d. Inl ''model raised''),
        weather_prediction_model = None, weather_trend = (\<lambda>h. Inr []) \<rparr>
      ''2025-01-01T00:00:00''
      [(''ecosystem'', PyDict [(''carbon_storage'', PyNum 100)])]) ''threats'' =
     Some (PyDict [(''blue_carbon'',
        PyDict [(''error'', PyStr ''model raised''), (''threat_level'', PyStr ''unknown'')])])
   \<and> map_of (comprehensive_threat_analysis Simplified
      \<lparr> models_loaded = True, storm_surge_model = None, coastal_erosion_model = None,
        blue_carbon_threat_model = Some (\<lambda>d. Inl ''model raised''),
        weather_prediction_model = None, weather_trend = (\<lambda>h. Inr []) \<rparr>
      ''2025-01-01T00:00:00''
      [(''ecosystem'', PyDict [(''carbon_storage'', PyNum 100)])]) ''overall_risk'' =
     Some (PyStr ''unknown'')
   \<and> \<not> has_key ''error'' (comprehensive_threat_analysis Simplified
      \<lparr> models_loaded = True, storm_surge_model = None, coastal_erosion_model = None,
        blue_carbon_threat_model = Some (\<lambda>d. Inl ''model raised''),
        weather_prediction_model = None, weather_trend = (\<lambda>h. Inr []) \<rparr>
      ''2025-01-01T00:00:00''
      [(''ecosystem'', PyDict [(''carbon_storage'', PyNum 100)])])"
proof -
  let ?p = "\<lparr> models_loaded = True, storm_surge_model = None, coastal_erosion_model = None,
        blue_carbon_threat_model = Some (\<lambda>d. Inl ''model raised''),
        weather_prediction_model = None, weather_trend = (\<lambda>h. Inr []) \<rparr>"
  let ?in = "[(''ecosystem'', PyDict [(''carbon_storage'', PyNum 100)])]"
  have r: "predict_blue_carbon_threat Simplified ?p (dict_get ?in ''ecosystem'' PyNone) =
      PyDict [(''error'', PyStr ''model raised''), (''threat_level'', PyStr ''unknown'')]"
    by (simp add: predict_blue_carbon_threat_def model_unavailable_def dict_get_def)
  have hyps: "has_key ''ecosystem'' ?in \<and> \<not> has_key ''weather'' ?in \<and>
       \<not> has_key ''coastal'' ?in \<and> \<not> has_key ''historical_weather'' ?in \<and>
       carries_error (predict_blue_carbon_threat Simplified ?p (dict_get ?in ''ecosystem'' PyNone))"
    by (simp only: r) (simp add: has_key_def carries_error_def)
  from error_results_are_ignored [of "[]" Simplified ?in ?p "''2025-01-01T00:00:00''"] hyps
  have "map_of (comprehensive_threat_analysis Simplified ?p ''2025-01-01T00:00:00'' ?in) ''threats'' =
           Some (PyDict [(''blue_carbon'',
                   predict_blue_carbon_threat Simplified ?p (dict_get ?in ''ecosystem'' PyNone))])
         \<and> map_of (comprehensive_threat_analysis Simplified ?p ''2025-01-01T00:00:00'' ?in) ''overall_risk'' =
             Some (PyStr ''unknown'')
         \<and> \<not> has_key ''error'' (comprehensive_threat_analysis Simplified ?p ''2025-01-01T00:00:00'' ?in)"
    by blast
  then show ?thesis by (simp only: r) simp
qed

end
